theory Spec2Isabelle
  imports Main "HOL-Library.Word"
begin

section \<open>Values shared by the two vendor adapters\<close>

subsection \<open>IP addresses (Go's \<open>net.IP\<close>)\<close>

text \<open>
  \<open>net.IP\<close> is a byte slice. The adapters test it against \<open>nil\<close>, so the model keeps
  the nil slice (\<open>None\<close>) apart from a slice that exists (\<open>Some bs\<close>, possibly empty).
\<close>

type_synonym byte = "8 word"

type_synonym IP = "byte list option"

definition bytes :: "IP \<Rightarrow> byte list" where
  "bytes ip = (case ip of None \<Rightarrow> [] | Some bs \<Rightarrow> bs)"

definition v4InV6Prefix :: "byte list" where
  "v4InV6Prefix = [0, 0, 0, 0, 0, 0, 0, 0, 0, 0, 0xff, 0xff]"

text \<open>
  The functions of the Go standard library on \<open>net.IP\<close> that the adapters call, as its
  documentation and source give them. \<open>isZeros\<close>: every byte is zero.
\<close>

fun isZeros :: "byte list \<Rightarrow> bool" where
  "isZeros [] = True"
| "isZeros (b # bs) = (b = 0 \<and> isZeros bs)"

text \<open>
  \<open>ip.To4()\<close>: a 4-byte slice is returned as it is, a 16-byte slice holding an
  IPv4-mapped address gives its last four bytes, anything else gives nil.
\<close>

definition To4 :: "IP \<Rightarrow> IP" where
  "To4 ip =
     (if length (bytes ip) = 4 then ip
      else if length (bytes ip) = 16 \<and> isZeros (take 10 (bytes ip))
              \<and> bytes ip ! 10 = 0xff \<and> bytes ip ! 11 = 0xff
           then Some (drop 12 (bytes ip))
      else None)"

text \<open>
  \<open>ip.Equal(x)\<close>: value equality, where an IPv4 address and its 16-byte IPv4-mapped
  form are equal.
\<close>

definition Equal :: "IP \<Rightarrow> IP \<Rightarrow> bool" where
  "Equal ip x =
     (if length (bytes ip) = length (bytes x) then bytes ip = bytes x
      else if length (bytes ip) = 4 \<and> length (bytes x) = 16
           then take 12 (bytes x) = v4InV6Prefix \<and> bytes ip = drop 12 (bytes x)
      else if length (bytes ip) = 16 \<and> length (bytes x) = 4
           then take 12 (bytes ip) = v4InV6Prefix \<and> drop 12 (bytes ip) = bytes x
      else False)"

subsection \<open>IP version\<close>

text \<open>
  Modelled from the spec: the declaration of \<open>ipversion.IPVersion\<close>
  (package \<open>pkg/publicip/ipversion\<close>) is not among the sources; the spec gives it as the
  enumeration IPv4 | IPv6, and the adapters name its constant \<open>IP6\<close>.
\<close>

datatype IPVersion = IP4 | IP6

subsection \<open>Errors\<close>

text \<open>
  The sentinel errors the two adapters name from package \<open>internal/settings/errors\<close>.
\<close>

datatype sentinel =
    ErrIPv6NotSupported
  | ErrMalformedPassword
  | ErrEmptyUsername
  | ErrEmptyPassword
  | ErrEmptyName
  | ErrHostOnlyAt
  | ErrBadHTTPStatus
  | ErrUnmarshalResponse
  | ErrUnsuccessfulResponse
  | ErrIPReceivedMalformed
  | ErrIPReceivedMismatch

text \<open>
  A Go \<open>error\<close> value that is not nil: a sentinel, an error made by the standard library
  (JSON and XML decoding, the HTTP transport), known by its message, or the result of
  \<open>fmt.Errorf(format, operands...)\<close>, kept as the format with its operands. The operand of
  \<open>%w\<close> is \<open>W\<close>, of \<open>%d\<close> is \<open>D\<close>, of \<open>%s\<close> is \<open>S\<close> for a string and \<open>E\<close> for an
  error. A nil \<open>error\<close> is \<open>None\<close> of \<open>error option\<close>.
\<close>

datatype error =
    Sentinel sentinel
  | Foreign string
  | Errorf string "fmtarg list"
and fmtarg =
    W error
  | D int
  | S string
  | E error

subsection \<open>HTTP requests and responses\<close>

text \<open>
  \<open>url.Values\<close> maps a key to a list of values; \<open>Set\<close> replaces the list of a key by a
  single value. \<open>Encode\<close> (sorting and escaping) is not modelled: a query string or a
  form body is kept as the \<open>Values\<close> it encodes.
\<close>

type_synonym Values = "string \<rightharpoonup> string list"

definition Set :: "Values \<Rightarrow> string \<Rightarrow> string \<Rightarrow> Values" where
  "Set values key v = values(key \<mapsto> [v])"

record URL =
  Scheme :: string
  Host :: string
  Path :: string
  RawQuery :: Values

record request =
  Method :: string
  Url :: URL
  Form :: "Values option"
  Header :: "string \<rightharpoonup> string"

record response =
  StatusCode :: int
  Body :: string

text \<open>
  Modelled from the spec: the helpers of package \<open>internal/settings/headers\<close> are not
  among the sources; the spec requires a user-agent identifier, \<open>Accept\<close> and, for a
  request with a body, \<open>Content-Type\<close>. The user-agent text is a parameter.
\<close>

definition SetUserAgent :: "string \<Rightarrow> request \<Rightarrow> request" where
  "SetUserAgent agent r = r\<lparr>Header := (Header r)(''User-Agent'' \<mapsto> agent)\<rparr>"

definition SetAccept :: "request \<Rightarrow> string \<Rightarrow> request" where
  "SetAccept r v = r\<lparr>Header := (Header r)(''Accept'' \<mapsto> v)\<rparr>"

definition SetContentType :: "request \<Rightarrow> string \<Rightarrow> request" where
  "SetContentType r v = r\<lparr>Header := (Header r)(''Content-Type'' \<mapsto> v)\<rparr>"

subsection \<open>Decoded vendor responses\<close>

text \<open>The anonymous struct \<open>parsedXML\<close> of the Namecheap adapter.\<close>

record parsedXML =
  xml_Error :: string
  xml_IP :: string

text \<open>The anonymous struct \<open>responseData\<close> of the DonDominio adapter.\<close>

record GlueRecord =
  IPv4 :: string
  IPv6 :: string

record responseData =
  Success :: bool
  ErrorCode :: int
  ErrorCodeMessage :: string
  GlueRecords :: "GlueRecord list"

subsection \<open>The world one call of Update runs in\<close>

text \<open>
  Everything \<open>Update\<close> gets from outside the repository or from a helper that is not
  among the sources is a field of the environment: the error (if any) of
  \<open>http.NewRequestWithContext\<close> for the given method, URL and body, the outcome of
  \<open>client.Do\<close> under the call's context, the two decoders run on a response body,
  \<open>net.ParseIP\<close>, \<open>ip.String()\<close>, \<open>utils.BodyToSingleLine\<close> and the user-agent text.
\<close>

record env =
  NewRequestError :: "string \<Rightarrow> URL \<Rightarrow> Values option \<Rightarrow> error option"
  Do :: "request \<Rightarrow> error + response"
  DecodeXML :: "string \<Rightarrow> error + parsedXML"
  DecodeJSON :: "string \<Rightarrow> error + responseData"
  ParseIP :: "string \<Rightarrow> IP"
  String :: "IP \<Rightarrow> string"
  BodyToSingleLine :: "string \<Rightarrow> string"
  UserAgent :: string

definition StatusOK :: int where
  "StatusOK = 200"

section \<open>The Namecheap adapter\<close>

record nc_Provider =
  nc_domain :: string
  nc_host :: string
  nc_ipVersion :: IPVersion
  nc_password :: string
  nc_useProviderIP :: bool
  nc_matcher :: "string \<Rightarrow> bool"

text \<open>The settings \<open>New\<close> decodes from the raw JSON.\<close>

record nc_extraSettings =
  nc_Password :: string
  nc_UseProviderIP :: bool

text \<open>
  \<open>isValid\<close>: the matcher's \<open>NamecheapPassword\<close> is the field \<open>nc_matcher\<close>.
\<close>

definition nc_isValid :: "nc_Provider \<Rightarrow> error option" where
  "nc_isValid p =
     (if \<not> nc_matcher p (nc_password p) then Some (Sentinel ErrMalformedPassword)
      else None)"

text \<open>
  \<open>New\<close>: \<open>unmarshal\<close> is \<open>json.Unmarshal\<close> into the settings struct. The result is
  the pair (provider pointer, error) of the Go function.
\<close>

definition nc_New ::
  "(string \<Rightarrow> error + nc_extraSettings) \<Rightarrow> string \<Rightarrow> string \<Rightarrow> string \<Rightarrow> IPVersion
     \<Rightarrow> (string \<Rightarrow> bool) \<Rightarrow> nc_Provider option \<times> error option" where
  "nc_New unmarshal data domain host ipVersion matcher =
     (if ipVersion = IP6 then (None, Some (Sentinel ErrIPv6NotSupported))
      else case unmarshal data of
        Inl err \<Rightarrow> (None, Some err)
      | Inr extraSettings \<Rightarrow>
          (let p = \<lparr>nc_domain = domain, nc_host = host, nc_ipVersion = ipVersion,
                    nc_password = nc_Password extraSettings,
                    nc_useProviderIP = nc_UseProviderIP extraSettings,
                    nc_matcher = matcher\<rparr>
           in case nc_isValid p of
                Some err \<Rightarrow> (None, Some err)
              | None \<Rightarrow> (Some p, None)))"

definition nc_setHeaders :: "env \<Rightarrow> request \<Rightarrow> request" where
  "nc_setHeaders env r = SetAccept (SetUserAgent (UserAgent env) r) ''application/xml''"

definition nc_values :: "env \<Rightarrow> nc_Provider \<Rightarrow> IP \<Rightarrow> Values" where
  "nc_values env p ip =
     (let values = Set (Set (Set Map.empty ''host'' (nc_host p)) ''domain'' (nc_domain p))
                     ''password'' (nc_password p)
      in if \<not> nc_useProviderIP p then Set values ''ip'' (String env ip) else values)"

definition nc_url :: "env \<Rightarrow> nc_Provider \<Rightarrow> IP \<Rightarrow> URL" where
  "nc_url env p ip =
     \<lparr>Scheme = ''https'', Host = ''dynamicdns.park-your-domain.com'', Path = ''/update'',
      RawQuery = nc_values env p ip\<rparr>"

definition nc_request :: "env \<Rightarrow> nc_Provider \<Rightarrow> IP \<Rightarrow> request" where
  "nc_request env p ip =
     nc_setHeaders env
       \<lparr>Method = ''GET'', Url = nc_url env p ip, Form = None, Header = Map.empty\<rparr>"

text \<open>
  \<open>Update\<close>: the result is the pair (newIP, err) of the Go function.
\<close>

definition nc_Update :: "env \<Rightarrow> nc_Provider \<Rightarrow> IP \<Rightarrow> IP \<times> error option" where
  "nc_Update env p ip =
     (case NewRequestError env ''GET'' (nc_url env p ip) None of
        Some err \<Rightarrow> (None, Some err)
      | None \<Rightarrow>
     (case Do env (nc_request env p ip) of
        Inl err \<Rightarrow> (None, Some err)
      | Inr response \<Rightarrow>
     if StatusCode response \<noteq> StatusOK
     then (None, Some (Errorf ''%w: %d: %s''
             [W (Sentinel ErrBadHTTPStatus), D (StatusCode response),
              S (BodyToSingleLine env (Body response))]))
     else
     (case DecodeXML env (Body response) of
        Inl err \<Rightarrow> (None, Some (Errorf ''%w: %s'' [W (Sentinel ErrUnmarshalResponse), E err]))
      | Inr parsed \<Rightarrow>
     if xml_Error parsed \<noteq> ''''
     then (None, Some (Errorf ''%w: %s''
             [W (Sentinel ErrUnsuccessfulResponse), S (xml_Error parsed)]))
     else if xml_IP parsed = '''' then (ip, None)
     else
     (let newIP = ParseIP env (xml_IP parsed) in
      if newIP = None
      then (None, Some (Errorf ''%w: %s''
              [W (Sentinel ErrIPReceivedMalformed), S (xml_IP parsed)]))
      else if ip \<noteq> None \<and> \<not> Equal ip newIP
      then (None, Some (Errorf ''%w: %s''
              [W (Sentinel ErrIPReceivedMismatch), S (String env newIP)]))
      else (newIP, None)))))"

section \<open>The DonDominio adapter\<close>

record dd_Provider =
  dd_domain :: string
  dd_host :: string
  dd_ipVersion :: IPVersion
  dd_username :: string
  dd_password :: string
  dd_name :: string

text \<open>The settings \<open>New\<close> decodes from the raw JSON.\<close>

record dd_extraSettings =
  dd_Username :: string
  dd_Password :: string
  dd_Name :: string

text \<open>\<open>isValid\<close>: the cases of the \<open>switch\<close>, in its order.\<close>

definition dd_isValid :: "dd_Provider \<Rightarrow> error option" where
  "dd_isValid p =
     (if length (dd_username p) = 0 then Some (Sentinel ErrEmptyUsername)
      else if length (dd_password p) = 0 then Some (Sentinel ErrEmptyPassword)
      else if length (dd_name p) = 0 then Some (Sentinel ErrEmptyName)
      else if dd_host p \<noteq> ''@'' then Some (Sentinel ErrHostOnlyAt)
      else None)"

text \<open>
  \<open>New\<close>: \<open>unmarshal\<close> is \<open>json.Unmarshal\<close> into the settings struct. The result is
  the pair (provider pointer, error) of the Go function.
\<close>

definition dd_New ::
  "(string \<Rightarrow> error + dd_extraSettings) \<Rightarrow> string \<Rightarrow> string \<Rightarrow> string \<Rightarrow> IPVersion
     \<Rightarrow> dd_Provider option \<times> error option" where
  "dd_New unmarshal data domain host ipVersion =
     (case unmarshal data of
        Inl err \<Rightarrow> (None, Some err)
      | Inr extraSettings \<Rightarrow>
          (let host' = (if length host = 0 then ''@'' else host);
               p = \<lparr>dd_domain = domain, dd_host = host', dd_ipVersion = ipVersion,
                    dd_username = dd_Username extraSettings,
                    dd_password = dd_Password extraSettings,
                    dd_name = dd_Name extraSettings\<rparr>
           in case dd_isValid p of
                Some err \<Rightarrow> (None, Some err)
              | None \<Rightarrow> (Some p, None)))"

definition dd_setHeaders :: "env \<Rightarrow> request \<Rightarrow> request" where
  "dd_setHeaders env r =
     SetAccept
       (SetContentType (SetUserAgent (UserAgent env) r) ''application/x-www-form-urlencoded'')
       ''application/json''"

definition dd_values :: "env \<Rightarrow> dd_Provider \<Rightarrow> IP \<Rightarrow> Values" where
  "dd_values env p ip =
     (let values = Set (Set (Set (Set Map.empty ''apiuser'' (dd_username p))
                       ''apipasswd'' (dd_password p)) ''domain'' (dd_domain p))
                     ''name'' (dd_name p);
          isIPv4 = (To4 ip \<noteq> None)
      in if isIPv4 then Set values ''ipv4'' (String env ip)
         else Set values ''ipv6'' (String env ip))"

definition dd_url :: URL where
  "dd_url = \<lparr>Scheme = ''https'', Host = ''simple-api.dondominio.net'', Path = '''',
             RawQuery = Map.empty\<rparr>"

definition dd_request :: "env \<Rightarrow> dd_Provider \<Rightarrow> IP \<Rightarrow> request" where
  "dd_request env p ip =
     dd_setHeaders env
       \<lparr>Method = ''POST'', Url = dd_url, Form = Some (dd_values env p ip),
        Header = Map.empty\<rparr>"

text \<open>
  A call of a Go function returns its results or panics.
\<close>

datatype 'a outcome = Returns 'a | Panics string

text \<open>
  \<open>Update\<close>: the pair (newIP, err) of the Go function, or the run-time panic of the
  index expression \<open>GlueRecords[0]\<close> on a list without elements.
\<close>

definition dd_Update :: "env \<Rightarrow> dd_Provider \<Rightarrow> IP \<Rightarrow> (IP \<times> error option) outcome" where
  "dd_Update env p ip =
     (let isIPv4 = (To4 ip \<noteq> None) in
      case NewRequestError env ''POST'' dd_url (Some (dd_values env p ip)) of
        Some err \<Rightarrow> Returns (None, Some err)
      | None \<Rightarrow>
     (case Do env (dd_request env p ip) of
        Inl err \<Rightarrow> Returns (None, Some err)
      | Inr response \<Rightarrow>
     if StatusCode response \<noteq> StatusOK
     then Returns (None, Some (Errorf ''%w: %d: %s''
             [W (Sentinel ErrBadHTTPStatus), D (StatusCode response),
              S (BodyToSingleLine env (Body response))]))
     else
     (case DecodeJSON env (Body response) of
        Inl err \<Rightarrow>
          Returns (None, Some (Errorf ''%w: %s'' [W (Sentinel ErrUnmarshalResponse), E err]))
      | Inr data \<Rightarrow>
     if \<not> Success data
     then Returns (None, Some (Errorf ''%w: %s (error code %d)''
             [W (Sentinel ErrUnsuccessfulResponse), S (ErrorCodeMessage data),
              D (ErrorCode data)]))
     else
     (case GlueRecords data of
        [] \<Rightarrow> Panics ''index out of range [0] with length 0''
      | first # _ \<Rightarrow>
     (let ipString = (if \<not> isIPv4 then IPv6 first else IPv4 first);
          newIP = ParseIP env ipString
      in if newIP = None
         then Returns (None, Some (Errorf ''%w: %s''
                 [W (Sentinel ErrIPReceivedMalformed), S ipString]))
         else if \<not> Equal ip newIP
         then Returns (None, Some (Errorf ''%w: %s''
                 [W (Sentinel ErrIPReceivedMismatch), S (String env newIP)]))
         else Returns (newIP, None))))))"

section \<open>The liveness server\<close>

text \<open>
  \<open>Server.Run\<close> runs two goroutines next to the supervising context and the listener:
  the loop of \<open>Run\<close> itself and the watcher started by \<open>go func()\<close>. The state records
  where each of them stands, whether the context is canceled (\<open>ctx.Err() != nil\<close>), how
  often \<open>close(done)\<close> and \<open>ListenAndServe\<close> have been executed, and the log.
\<close>

datatype level = Info | Warn | Error

datatype loop_pc =
    LoopHead \<comment> \<open>about to evaluate the condition of \<open>for\<close>\<close>
  | Serving \<comment> \<open>blocked in \<open>server.ListenAndServe()\<close>\<close>
  | ListenerExited "string option"
      \<comment> \<open>\<open>ListenAndServe\<close> has returned \<open>err\<close> (its message), about to evaluate the \<open>if\<close>\<close>
  | Stopped \<comment> \<open>\<open>Run\<close> has returned; the deferred \<open>close(done)\<close> has run\<close>

datatype watcher_pc =
    Waiting \<comment> \<open>blocked in \<open><-ctx.Done()\<close>\<close>
  | ShuttingDown \<comment> \<open>about to call \<open>server.Shutdown\<close>\<close>
  | ShutDown \<comment> \<open>the goroutine has ended\<close>

record state =
  canceled :: bool
  loop :: loop_pc
  watcher :: watcher_pc
  closes :: nat
  listens :: nat
  log :: "(level \<times> string) list"

text \<open>
  What can happen next: the context is canceled from outside, the goroutine of \<open>Run\<close>
  takes its next step, \<open>ListenAndServe\<close> returns with some error, or the watcher takes its
  next step (with the error of \<open>server.Shutdown\<close> when it calls it). The listener may
  return at any moment, for any reason: the model does not say when it does.
\<close>

datatype event =
    Cancel
  | Loop
  | ListenerExit "string option"
  | Watcher "string option"

text \<open>
  One step of the system under an event, \<open>None\<close> when the event cannot happen in the
  state. The first argument is the address of the server.
\<close>

fun exec :: "string \<Rightarrow> state \<Rightarrow> event \<Rightarrow> state option" where
  "exec address s Cancel =
     (if canceled s then None else Some (s\<lparr>canceled := True\<rparr>))"
| "exec address s Loop =
     (case loop s of
        LoopHead \<Rightarrow>
          if \<not> canceled s
          then Some (s\<lparr>loop := Serving, listens := Suc (listens s),
                       log := log s @ [(Info, ''listening on '' @ address)]\<rparr>)
          else Some (s\<lparr>loop := Stopped, closes := Suc (closes s)\<rparr>)
      | Serving \<Rightarrow> None
      | ListenerExited err \<Rightarrow>
          (case err of
             Some msg \<Rightarrow>
               if \<not> canceled s
               then Some (s\<lparr>loop := LoopHead,
                            log := log s @ [(Error, msg), (Info, ''restarting'')]\<rparr>)
               else Some (s\<lparr>loop := LoopHead\<rparr>)
           | None \<Rightarrow> Some (s\<lparr>loop := LoopHead\<rparr>))
      | Stopped \<Rightarrow> None)"
| "exec address s (ListenerExit err) =
     (if loop s = Serving then Some (s\<lparr>loop := ListenerExited err\<rparr>) else None)"
| "exec address s (Watcher err) =
     (case watcher s of
        Waiting \<Rightarrow>
          if canceled s
          then Some (s\<lparr>watcher := ShuttingDown,
                       log := log s @ [(Warn, ''shutting down (context canceled)'')]\<rparr>)
          else None
      | ShuttingDown \<Rightarrow>
          Some (s\<lparr>watcher := ShutDown,
                  log := log s
                    @ (case err of
                         Some msg \<Rightarrow> [(Error, ''failed shutting down: '' @ msg)]
                       | None \<Rightarrow> [])
                    @ [(Warn, ''shut down'')]\<rparr>)
      | ShutDown \<Rightarrow> None)"

text \<open>A run: the events of a list, one after the other.\<close>

fun run :: "string \<Rightarrow> state \<Rightarrow> event list \<Rightarrow> state option" where
  "run address s [] = Some s"
| "run address s (e # es) =
     (case exec address s e of None \<Rightarrow> None | Some s' \<Rightarrow> run address s' es)"

text \<open>
  The state \<open>Run\<close> starts in; the context it is given may be canceled already.
\<close>

definition Run_init :: "bool \<Rightarrow> state" where
  "Run_init c =
     \<lparr>canceled = c, loop = LoopHead, watcher = Waiting, closes = 0, listens = 0, log = []\<rparr>"

section \<open>Notions of the specification\<close>

text \<open>
  The contract of \<open>Update\<close>: a confirmed IP that is not nil with a nil error, or a nil
  IP with an error that is not nil.
\<close>

definition exactly_one :: "IP \<times> error option \<Rightarrow> bool" where
  "exactly_one r =
     ((fst r \<noteq> None \<and> snd r = None) \<or> (fst r = None \<and> snd r \<noteq> None))"

text \<open>
  The Namecheap call gets a response with status 200 that decodes with no error text and
  an empty IP field.
\<close>

definition nc_empty_success :: "env \<Rightarrow> nc_Provider \<Rightarrow> IP \<Rightarrow> bool" where
  "nc_empty_success env p ip =
     (NewRequestError env ''GET'' (nc_url env p ip) None = None \<and>
      (case Do env (nc_request env p ip) of
         Inl err \<Rightarrow> False
       | Inr response \<Rightarrow>
           StatusCode response = 200 \<and>
           (case DecodeXML env (Body response) of
              Inl err \<Rightarrow> False
            | Inr parsed \<Rightarrow> xml_Error parsed = '''' \<and> xml_IP parsed = '''')))"

text \<open>
  The DonDominio call gets a response with status 200 that decodes with \<open>success\<close> true
  and no glue record.
\<close>

definition dd_empty_success :: "env \<Rightarrow> dd_Provider \<Rightarrow> IP \<Rightarrow> bool" where
  "dd_empty_success env p ip =
     (NewRequestError env ''POST'' dd_url (Some (dd_values env p ip)) = None \<and>
      (case Do env (dd_request env p ip) of
         Inl err \<Rightarrow> False
       | Inr response \<Rightarrow>
           StatusCode response = 200 \<and>
           (case DecodeJSON env (Body response) of
              Inl err \<Rightarrow> False
            | Inr decoded \<Rightarrow> Success decoded \<and> GlueRecords decoded = [])))"

text \<open>
  The structural validation of the DonDominio constructor as the specification words
  it: the rules in their documented order, each with the test of its violation and the
  error it reports, applied to the provider built from the decoded settings (an empty
  host replaced by the root marker); the first violated rule wins.
\<close>

definition dd_candidate ::
  "dd_extraSettings \<Rightarrow> string \<Rightarrow> string \<Rightarrow> IPVersion \<Rightarrow> dd_Provider" where
  "dd_candidate s domain host v =
     \<lparr>dd_domain = domain, dd_host = (if host = '''' then ''@'' else host), dd_ipVersion = v,
      dd_username = dd_Username s, dd_password = dd_Password s, dd_name = dd_Name s\<rparr>"

definition dd_rules :: "((dd_Provider \<Rightarrow> bool) \<times> sentinel) list" where
  "dd_rules =
     [(\<lambda>p. dd_username p = '''', ErrEmptyUsername),
      (\<lambda>p. dd_password p = '''', ErrEmptyPassword),
      (\<lambda>p. dd_name p = '''', ErrEmptyName),
      (\<lambda>p. dd_host p \<noteq> ''@'', ErrHostOnlyAt)]"

definition first_violated :: "dd_Provider \<Rightarrow> sentinel option" where
  "first_violated p = map_option snd (find (\<lambda>rule. fst rule p) dd_rules)"

text \<open>
  The completion channel of the liveness server: \<open>close(done)\<close> has run once when
  \<open>Run\<close> has returned and not at all before, and \<open>Run\<close> has returned only under a
  canceled context.
\<close>

definition completion_inv :: "state \<Rightarrow> bool" where
  "completion_inv s =
     (closes s = (if loop s = Stopped then 1 else 0) \<and> (loop s = Stopped \<longrightarrow> canceled s))"

section \<open>Sample inputs\<close>

text \<open>
  Addresses as \<open>net.ParseIP\<close> returns them (16 bytes, an IPv4 address in its mapped
  form), a fragment of \<open>net.ParseIP\<close> and of \<open>ip.String()\<close> on them, and an environment
  whose transport and decoders answer as given.
\<close>

definition ip4_a :: IP where
  "ip4_a = Some [192, 0, 2, 1]"

definition ip16_a :: IP where
  "ip16_a = Some [0, 0, 0, 0, 0, 0, 0, 0, 0, 0, 0xff, 0xff, 192, 0, 2, 1]"

definition ip16_b :: IP where
  "ip16_b = Some [0, 0, 0, 0, 0, 0, 0, 0, 0, 0, 0xff, 0xff, 192, 0, 2, 2]"

definition ip6_a :: IP where
  "ip6_a = Some [0x20, 0x01, 0x0d, 0xb8, 0, 0, 0, 0, 0, 0, 0, 0, 0, 0, 0, 1]"

definition sample_ParseIP :: "string \<Rightarrow> IP" where
  "sample_ParseIP s =
     (if s = ''192.0.2.1'' then ip16_a
      else if s = ''192.0.2.2'' then ip16_b
      else if s = ''2001:db8::1'' then ip6_a
      else None)"

definition sample_String :: "IP \<Rightarrow> string" where
  "sample_String ip =
     (if length (bytes ip) = 0 then ''<nil>''
      else if Equal ip ip16_a then ''192.0.2.1''
      else if Equal ip ip16_b then ''192.0.2.2''
      else if ip = ip6_a then ''2001:db8::1''
      else ''?'')"

definition sample_env ::
  "(error + response) \<Rightarrow> (error + parsedXML) \<Rightarrow> (error + responseData) \<Rightarrow> env" where
  "sample_env answer decodedXML decodedJSON =
     \<lparr>NewRequestError = (\<lambda>method u body. None),
      Do = (\<lambda>r. answer),
      DecodeXML = (\<lambda>body. decodedXML),
      DecodeJSON = (\<lambda>body. decodedJSON),
      ParseIP = sample_ParseIP,
      String = sample_String,
      BodyToSingleLine = (\<lambda>body. body),
      UserAgent = ''DDNS-Updater''\<rparr>"

definition env_status :: "int \<Rightarrow> string \<Rightarrow> env" where
  "env_status code body =
     sample_env (Inr \<lparr>StatusCode = code, Body = body\<rparr>)
       (Inl (Foreign ''EOF'')) (Inl (Foreign ''EOF''))"

text \<open>
  A transport that fails every request, with a message telling which of the form fields
  \<open>ipv4\<close> and \<open>ipv6\<close> the request it was given holds.
\<close>

definition probe_Do :: "request \<Rightarrow> error + response" where
  "probe_Do r =
     (case Form r of
        None \<Rightarrow> Inl (Foreign ''no form'')
      | Some form \<Rightarrow>
          if form ''ipv6'' \<noteq> None \<and> form ''ipv4'' = None then Inl (Foreign ''ipv6 only'')
          else if form ''ipv4'' \<noteq> None \<and> form ''ipv6'' = None then Inl (Foreign ''ipv4 only'')
          else Inl (Foreign ''both or none''))"

definition env_probe :: env where
  "env_probe = (env_status 200 ''{}'')\<lparr>Do := probe_Do\<rparr>"

definition env_xml :: "parsedXML \<Rightarrow> env" where
  "env_xml parsed =
     sample_env (Inr \<lparr>StatusCode = 200, Body = ''<interface-response/>''\<rparr>)
       (Inr parsed) (Inl (Foreign ''invalid character''))"

definition env_json :: "responseData \<Rightarrow> env" where
  "env_json decoded =
     sample_env (Inr \<lparr>StatusCode = 200, Body = ''{}''\<rparr>)
       (Inl (Foreign ''EOF'')) (Inr decoded)"

definition success_with :: "GlueRecord list \<Rightarrow> responseData" where
  "success_with records =
     \<lparr>Success = True, ErrorCode = 0, ErrorCodeMessage = '''', GlueRecords = records\<rparr>"

definition violating_settings :: dd_extraSettings where
  "violating_settings = \<lparr>dd_Username = '''', dd_Password = '''', dd_Name = ''home''\<rparr>"

definition sample_nc :: nc_Provider where
  "sample_nc =
     \<lparr>nc_domain = ''example.com'', nc_host = ''@'', nc_ipVersion = IP4,
      nc_password = ''0123456789abcdef0123456789abcdef'', nc_useProviderIP = False,
      nc_matcher = (\<lambda>s. length s = 32)\<rparr>"

definition sample_dd :: "IPVersion \<Rightarrow> dd_Provider" where
  "sample_dd v =
     \<lparr>dd_domain = ''example.com'', dd_host = ''@'', dd_ipVersion = v,
      dd_username = ''user'', dd_password = ''secret'', dd_name = ''home''\<rparr>"

definition crash_message :: string where
  "crash_message = ''accept tcp: too many open files''"

definition crashed :: state where
  "crashed =
     \<lparr>canceled = False, loop = ListenerExited (Some crash_message), watcher = Waiting,
      closes = 0, listens = 1, log = [(Info, ''listening on :9999'')]\<rparr>"

definition crash_then_cancel :: "event list" where
  "crash_then_cancel =
     [Loop, ListenerExit (Some crash_message), Loop, Loop, Cancel, Watcher None,
      Watcher None, ListenerExit (Some ''http: Server closed''), Loop, Loop]"

section \<open>The sample addresses\<close>

text \<open>
  The address functions on the samples: the mapped form of an IPv4 address is an IPv4
  address and equals its 4-byte form, the IPv6 sample and the nil slice are not IPv4
  addresses, and no address equals the nil slice.
\<close>

lemma sample_addresses:
  "To4 ip16_a = ip4_a" "To4 ip4_a = ip4_a" "To4 ip6_a = None" "To4 None = None"
  "Equal ip4_a ip16_a" "Equal ip16_a ip4_a" "\<not> Equal ip16_a ip16_b"
  "\<not> Equal None ip16_a" "\<not> Equal ip6_a ip16_a"
  by (simp_all add: ip16_a_def ip16_b_def ip4_a_def ip6_a_def Equal_def To4_def bytes_def
        v4InV6Prefix_def)

section \<open>Construction\<close>

text \<open>
  C3. The Namecheap constructor called with the IP version IPv6 returns no provider and
  the error \<open>ErrIPv6NotSupported\<close>, whatever the raw settings are, whatever decoding
  them with \<open>json.Unmarshal\<close> would give and whatever the password matcher accepts:
  nothing is decoded or validated before the version is rejected.
\<close>

theorem nc_New_IP6_unsupported:
  "nc_New unmarshal data domain host IP6 matcher =
     (None, Some (Sentinel ErrIPv6NotSupported))"
  by (simp add: nc_New_def)

theorem nc_New_IP6_unsupported_witness:
  "nc_New (\<lambda>d. Inl (Foreign ''unexpected end of JSON input'')) ''{'' ''example.com'' ''@''
     IP6 (\<lambda>s. False) = (None, Some (Sentinel ErrIPv6NotSupported))"
  using nc_New_IP6_unsupported
    [of "\<lambda>d. Inl (Foreign ''unexpected end of JSON input'')" "''{''" "''example.com''"
        "''@''" "\<lambda>s. False"]
  by simp

lemma dd_isValid_first_violated:
  "dd_isValid p = map_option Sentinel (first_violated p)"
  by (simp add: dd_isValid_def first_violated_def dd_rules_def)

text \<open>
  C4. When the raw settings decode, the DonDominio constructor fails with the error of
  the first violated rule in the order: empty username, empty password, empty record
  name, host (an empty host counting as "@") different from "@". It returns a provider
  and no error exactly when no rule is violated.
\<close>

theorem dd_New_first_violated_rule:
  "unmarshal data = Inr s \<Longrightarrow>
     dd_New unmarshal data domain host v =
       (case first_violated (dd_candidate s domain host v) of
          Some e \<Rightarrow> (None, Some (Sentinel e))
        | None \<Rightarrow> (Some (dd_candidate s domain host v), None))
     \<and> first_violated (dd_candidate s domain host v) =
         (if dd_Username s = '''' then Some ErrEmptyUsername
          else if dd_Password s = '''' then Some ErrEmptyPassword
          else if dd_Name s = '''' then Some ErrEmptyName
          else if host \<noteq> '''' \<and> host \<noteq> ''@'' then Some ErrHostOnlyAt
          else None)
     \<and> (snd (dd_New unmarshal data domain host v) = None
          \<longleftrightarrow> first_violated (dd_candidate s domain host v) = None)
     \<and> (fst (dd_New unmarshal data domain host v) \<noteq> None
          \<longleftrightarrow> first_violated (dd_candidate s domain host v) = None)"
  by (simp add: dd_New_def dd_isValid_first_violated dd_candidate_def Let_def
        first_violated_def dd_rules_def split: option.splits)

theorem dd_New_first_violated_rule_witness:
  "(\<lambda>d. Inr violating_settings :: error + dd_extraSettings) ''{}'' = Inr violating_settings
   \<and> dd_New (\<lambda>d. Inr violating_settings) ''{}'' ''example.com'' ''www'' IP4
       = (None, Some (Sentinel ErrEmptyUsername))"
  using dd_New_first_violated_rule
    [of "\<lambda>d. Inr violating_settings" "''{}''" violating_settings
        "''example.com''" "''www''" IP4]
  by (simp add: violating_settings_def)

section \<open>Update of the Namecheap adapter\<close>

text \<open>
  C5. When the Namecheap call gets a response with status 200 that decodes with an empty
  error field and an empty IP field, \<open>Update\<close> returns the requested IP as it was given,
  with a nil error.
\<close>

theorem nc_Update_empty_IP_returns_requested:
  "NewRequestError env ''GET'' (nc_url env p ip) None = None \<Longrightarrow>
   Do env (nc_request env p ip) = Inr response \<Longrightarrow>
   StatusCode response = 200 \<Longrightarrow>
   DecodeXML env (Body response) = Inr parsed \<Longrightarrow>
   xml_Error parsed = '''' \<Longrightarrow>
   xml_IP parsed = '''' \<Longrightarrow>
   nc_Update env p ip = (ip, None)"
  by (simp add: nc_Update_def StatusOK_def)

theorem nc_Update_empty_IP_returns_requested_witness:
  "NewRequestError (env_xml \<lparr>xml_Error = '''', xml_IP = ''''\<rparr>) ''GET''
       (nc_url (env_xml \<lparr>xml_Error = '''', xml_IP = ''''\<rparr>) sample_nc ip16_a) None = None
   \<and> Do (env_xml \<lparr>xml_Error = '''', xml_IP = ''''\<rparr>)
       (nc_request (env_xml \<lparr>xml_Error = '''', xml_IP = ''''\<rparr>) sample_nc ip16_a)
       = Inr \<lparr>StatusCode = 200, Body = ''<interface-response/>''\<rparr>
   \<and> DecodeXML (env_xml \<lparr>xml_Error = '''', xml_IP = ''''\<rparr>) ''<interface-response/>''
       = Inr \<lparr>xml_Error = '''', xml_IP = ''''\<rparr>
   \<and> nc_Update (env_xml \<lparr>xml_Error = '''', xml_IP = ''''\<rparr>) sample_nc ip16_a = (ip16_a, None)"
  using nc_Update_empty_IP_returns_requested
    [of "env_xml \<lparr>xml_Error = '''', xml_IP = ''''\<rparr>" sample_nc ip16_a
        "\<lparr>StatusCode = 200, Body = ''<interface-response/>''\<rparr>"
        "\<lparr>xml_Error = '''', xml_IP = ''''\<rparr>"]
  by (simp add: env_xml_def sample_env_def)

text \<open>
  C6, as the code has it. For a requested IP that is not nil and a response with status
  200, no error text and an IP field that is not empty: when the field parses to an
  address that is not equal by value to the requested one, \<open>Update\<close> returns a nil IP
  and an error wrapping \<open>ErrIPReceivedMismatch\<close>; when the field does not parse, it
  returns a nil IP and an error wrapping \<open>ErrIPReceivedMalformed\<close>.
\<close>

theorem nc_Update_parsed_IP_checked:
  "ip \<noteq> None \<Longrightarrow>
   NewRequestError env ''GET'' (nc_url env p ip) None = None \<Longrightarrow>
   Do env (nc_request env p ip) = Inr response \<Longrightarrow>
   StatusCode response = 200 \<Longrightarrow>
   DecodeXML env (Body response) = Inr parsed \<Longrightarrow>
   xml_Error parsed = '''' \<Longrightarrow>
   xml_IP parsed \<noteq> '''' \<Longrightarrow>
   (ParseIP env (xml_IP parsed) \<noteq> None \<and> \<not> Equal ip (ParseIP env (xml_IP parsed)) \<longrightarrow>
      nc_Update env p ip =
        (None, Some (Errorf ''%w: %s''
           [W (Sentinel ErrIPReceivedMismatch), S (String env (ParseIP env (xml_IP parsed)))])))
   \<and> (ParseIP env (xml_IP parsed) = None \<longrightarrow>
      nc_Update env p ip =
        (None, Some (Errorf ''%w: %s''
           [W (Sentinel ErrIPReceivedMalformed), S (xml_IP parsed)])))"
  by (simp add: nc_Update_def StatusOK_def Let_def)

theorem nc_Update_parsed_IP_checked_witness:
  "ip16_a \<noteq> None
   \<and> Do (env_xml \<lparr>xml_Error = '''', xml_IP = ''192.0.2.2''\<rparr>)
       (nc_request (env_xml \<lparr>xml_Error = '''', xml_IP = ''192.0.2.2''\<rparr>) sample_nc ip16_a)
       = Inr \<lparr>StatusCode = 200, Body = ''<interface-response/>''\<rparr>
   \<and> DecodeXML (env_xml \<lparr>xml_Error = '''', xml_IP = ''192.0.2.2''\<rparr>) ''<interface-response/>''
       = Inr \<lparr>xml_Error = '''', xml_IP = ''192.0.2.2''\<rparr>
   \<and> ParseIP (env_xml \<lparr>xml_Error = '''', xml_IP = ''192.0.2.2''\<rparr>) ''192.0.2.2'' = ip16_b
   \<and> \<not> Equal ip16_a ip16_b
   \<and> nc_Update (env_xml \<lparr>xml_Error = '''', xml_IP = ''192.0.2.2''\<rparr>) sample_nc ip16_a
       = (None, Some (Errorf ''%w: %s'' [W (Sentinel ErrIPReceivedMismatch), S ''192.0.2.2'']))
   \<and> ParseIP (env_xml \<lparr>xml_Error = '''', xml_IP = ''192.0.2''\<rparr>) ''192.0.2'' = None
   \<and> nc_Update (env_xml \<lparr>xml_Error = '''', xml_IP = ''192.0.2''\<rparr>) sample_nc ip16_a
       = (None, Some (Errorf ''%w: %s'' [W (Sentinel ErrIPReceivedMalformed), S ''192.0.2'']))"
  using nc_Update_parsed_IP_checked
    [of ip16_a "env_xml \<lparr>xml_Error = '''', xml_IP = ''192.0.2.2''\<rparr>" sample_nc
        "\<lparr>StatusCode = 200, Body = ''<interface-response/>''\<rparr>"
        "\<lparr>xml_Error = '''', xml_IP = ''192.0.2.2''\<rparr>"]
    nc_Update_parsed_IP_checked
    [of ip16_a "env_xml \<lparr>xml_Error = '''', xml_IP = ''192.0.2''\<rparr>" sample_nc
        "\<lparr>StatusCode = 200, Body = ''<interface-response/>''\<rparr>"
        "\<lparr>xml_Error = '''', xml_IP = ''192.0.2''\<rparr>"]
  by (simp add: env_xml_def sample_env_def sample_ParseIP_def sample_String_def
        Equal_def bytes_def ip16_a_def ip16_b_def)

text \<open>
  C6 as it is worded fails where the IP field is empty: the empty field does not parse as
  an address, the requested IP is not nil, and \<open>Update\<close> returns the requested IP with a
  nil error, not \<open>ErrIPReceivedMalformed\<close>.
\<close>

theorem nc_Update_empty_IP_not_malformed:
  "ip16_a \<noteq> None
   \<and> Do (env_xml \<lparr>xml_Error = '''', xml_IP = ''''\<rparr>)
       (nc_request (env_xml \<lparr>xml_Error = '''', xml_IP = ''''\<rparr>) sample_nc ip16_a)
       = Inr \<lparr>StatusCode = 200, Body = ''<interface-response/>''\<rparr>
   \<and> DecodeXML (env_xml \<lparr>xml_Error = '''', xml_IP = ''''\<rparr>) ''<interface-response/>''
       = Inr \<lparr>xml_Error = '''', xml_IP = ''''\<rparr>
   \<and> ParseIP (env_xml \<lparr>xml_Error = '''', xml_IP = ''''\<rparr>) '''' = None
   \<and> nc_Update (env_xml \<lparr>xml_Error = '''', xml_IP = ''''\<rparr>) sample_nc ip16_a = (ip16_a, None)
   \<and> nc_Update (env_xml \<lparr>xml_Error = '''', xml_IP = ''''\<rparr>) sample_nc ip16_a
       \<noteq> (None, Some (Errorf ''%w: %s'' [W (Sentinel ErrIPReceivedMalformed), S '''']))"
  by (simp add: nc_Update_def StatusOK_def env_xml_def sample_env_def sample_ParseIP_def
        ip16_a_def)

section \<open>Update of both adapters\<close>

lemma nc_request_decoders [simp]:
  "nc_request (env\<lparr>DecodeXML := dx, DecodeJSON := dj\<rparr>) p ip = nc_request env p ip"
  "nc_url (env\<lparr>DecodeXML := dx, DecodeJSON := dj\<rparr>) p ip = nc_url env p ip"
  by (simp_all add: nc_request_def nc_url_def nc_values_def nc_setHeaders_def Let_def)

lemma dd_request_decoders [simp]:
  "dd_request (env\<lparr>DecodeXML := dx, DecodeJSON := dj\<rparr>) p ip = dd_request env p ip"
  "dd_values (env\<lparr>DecodeXML := dx, DecodeJSON := dj\<rparr>) p ip = dd_values env p ip"
  by (simp_all add: dd_request_def dd_values_def dd_setHeaders_def Let_def)

text \<open>
  C8. When the request of either adapter is answered with a status code other than 200,
  \<open>Update\<close> returns a nil IP and the error made from \<open>ErrBadHTTPStatus\<close>, the status
  code and \<open>BodyToSingleLine\<close> of the body. The result is the same whatever the XML and
  JSON decoders (\<open>dx\<close>, \<open>dj\<close>) would make of the body.
\<close>

theorem Update_bad_status:
  "StatusCode response \<noteq> 200 \<Longrightarrow>
   (NewRequestError env ''GET'' (nc_url env p ip) None = None \<and>
    Do env (nc_request env p ip) = Inr response \<longrightarrow>
      nc_Update (env\<lparr>DecodeXML := dx, DecodeJSON := dj\<rparr>) p ip =
        (None, Some (Errorf ''%w: %d: %s''
           [W (Sentinel ErrBadHTTPStatus), D (StatusCode response),
            S (BodyToSingleLine env (Body response))])))
   \<and> (NewRequestError env ''POST'' dd_url (Some (dd_values env d ip)) = None \<and>
      Do env (dd_request env d ip) = Inr response \<longrightarrow>
      dd_Update (env\<lparr>DecodeXML := dx, DecodeJSON := dj\<rparr>) d ip =
        Returns (None, Some (Errorf ''%w: %d: %s''
           [W (Sentinel ErrBadHTTPStatus), D (StatusCode response),
            S (BodyToSingleLine env (Body response))])))"
  by (simp add: nc_Update_def dd_Update_def StatusOK_def)

theorem Update_bad_status_witness:
  "StatusCode \<lparr>StatusCode = 503, Body = ''busy''\<rparr> \<noteq> 200
   \<and> Do (env_status 503 ''busy'') (nc_request (env_status 503 ''busy'') sample_nc ip16_a)
       = Inr \<lparr>StatusCode = 503, Body = ''busy''\<rparr>
   \<and> Do (env_status 503 ''busy'') (dd_request (env_status 503 ''busy'') (sample_dd IP4) ip16_a)
       = Inr \<lparr>StatusCode = 503, Body = ''busy''\<rparr>
   \<and> nc_Update ((env_status 503 ''busy'')
         \<lparr>DecodeXML := \<lambda>b. Inr \<lparr>xml_Error = '''', xml_IP = ''192.0.2.1''\<rparr>,
          DecodeJSON := \<lambda>b. Inr (success_with [\<lparr>IPv4 = ''192.0.2.1'', IPv6 = ''''\<rparr>])\<rparr>)
         sample_nc ip16_a
       = (None, Some (Errorf ''%w: %d: %s'' [W (Sentinel ErrBadHTTPStatus), D 503, S ''busy'']))
   \<and> dd_Update ((env_status 503 ''busy'')
         \<lparr>DecodeXML := \<lambda>b. Inr \<lparr>xml_Error = '''', xml_IP = ''192.0.2.1''\<rparr>,
          DecodeJSON := \<lambda>b. Inr (success_with [\<lparr>IPv4 = ''192.0.2.1'', IPv6 = ''''\<rparr>])\<rparr>)
         (sample_dd IP4) ip16_a
       = Returns (None,
           Some (Errorf ''%w: %d: %s'' [W (Sentinel ErrBadHTTPStatus), D 503, S ''busy'']))"
  using Update_bad_status
    [where response = "\<lparr>StatusCode = 503, Body = ''busy''\<rparr>"
       and env = "env_status 503 ''busy''" and p = sample_nc and ip = ip16_a
       and dx = "\<lambda>b. Inr \<lparr>xml_Error = '''', xml_IP = ''192.0.2.1''\<rparr>"
       and dj = "\<lambda>b. Inr (success_with [\<lparr>IPv4 = ''192.0.2.1'', IPv6 = ''''\<rparr>])"
       and d = "sample_dd IP4"]
  by (simp add: env_status_def sample_env_def)

lemma exactly_one_simps [simp]:
  "exactly_one (None, Some e)" "x \<noteq> None \<Longrightarrow> exactly_one (x, None)"
  "\<not> exactly_one (None, None)"
  by (simp_all add: exactly_one_def)

lemma nc_Update_nil_nil:
  "ip = None \<Longrightarrow> nc_empty_success env p ip \<Longrightarrow> nc_Update env p ip = (None, None)"
  by (auto simp add: nc_Update_def nc_empty_success_def StatusOK_def split: sum.splits)

lemma nc_Update_exactly_one:
  "\<not> (ip = None \<and> nc_empty_success env p ip) \<Longrightarrow> exactly_one (nc_Update env p ip)"
  by (cases ip)
     (auto simp add: nc_Update_def nc_empty_success_def StatusOK_def Let_def
        split: option.splits sum.splits)

lemma dd_Update_exactly_one:
  "dd_Update env d ip = Returns r \<Longrightarrow> exactly_one r"
  by (auto simp add: dd_Update_def StatusOK_def Let_def
        split: option.splits sum.splits list.splits if_splits)

lemma dd_Update_returns:
  "\<not> dd_empty_success env d ip \<Longrightarrow> \<exists>r. dd_Update env d ip = Returns r \<and> exactly_one r"
  by (auto simp add: dd_Update_def dd_empty_success_def StatusOK_def Let_def
        split: option.splits sum.splits list.splits)

text \<open>
  C1, as the code has it. The Namecheap \<open>Update\<close> returns an IP that is not nil with a nil
  error, or a nil IP with an error that is not nil, in every execution but one kind:
  when the requested IP is nil and the response has status 200 and decodes with no error
  text and an empty IP field, it returns the requested nil IP with a nil error. It never
  returns an IP and an error together. The DonDominio \<open>Update\<close> returns, and returns an
  IP that is not nil with a nil error or a nil IP with an error that is not nil, in every
  execution that is not answered with status 200, \<open>success\<close> true and no glue record;
  and whenever it returns, its result has one of these two shapes.
\<close>

theorem Update_result_shape:
  "(if ip = None \<and> nc_empty_success env p ip
    then nc_Update env p ip = (None, None)
    else exactly_one (nc_Update env p ip))
   \<and> (\<not> dd_empty_success env' d ip' \<longrightarrow>
        (\<exists>r'. dd_Update env' d ip' = Returns r' \<and> exactly_one r'))
   \<and> (dd_Update env' d ip' = Returns r \<longrightarrow> exactly_one r)"
  using nc_Update_nil_nil [of ip env p] nc_Update_exactly_one [of ip env p]
    dd_Update_returns [of env' d ip'] dd_Update_exactly_one [of env' d ip' r]
  by (cases "ip = None \<and> nc_empty_success env p ip") auto

theorem Update_result_shape_witness:
  "exactly_one (nc_Update (env_xml \<lparr>xml_Error = '''', xml_IP = ''''\<rparr>) sample_nc ip16_a)
   \<and> nc_empty_success (env_xml \<lparr>xml_Error = '''', xml_IP = ''''\<rparr>) sample_nc None
   \<and> nc_Update (env_xml \<lparr>xml_Error = '''', xml_IP = ''''\<rparr>) sample_nc None = (None, None)
   \<and> \<not> dd_empty_success (env_json (success_with [\<lparr>IPv4 = ''192.0.2.1'', IPv6 = ''''\<rparr>]))
        (sample_dd IP4) ip16_a
   \<and> dd_Update (env_json (success_with [\<lparr>IPv4 = ''192.0.2.1'', IPv6 = ''''\<rparr>]))
        (sample_dd IP4) ip16_a = Returns (ip16_a, None)
   \<and> exactly_one (ip16_a, None)
   \<and> \<not> dd_empty_success (env_status 503 ''busy'') (sample_dd IP4) ip16_a
   \<and> (\<exists>r'. dd_Update (env_status 503 ''busy'') (sample_dd IP4) ip16_a = Returns r'
          \<and> exactly_one r')"
  using Update_result_shape
    [where ip = ip16_a and env = "env_xml \<lparr>xml_Error = '''', xml_IP = ''''\<rparr>"
       and p = sample_nc
       and env' = "env_json (success_with [\<lparr>IPv4 = ''192.0.2.1'', IPv6 = ''''\<rparr>])"
       and d = "sample_dd IP4" and ip' = ip16_a and r = "(ip16_a, None)"]
    Update_result_shape
    [where ip = None and env = "env_xml \<lparr>xml_Error = '''', xml_IP = ''''\<rparr>"
       and p = sample_nc
       and env' = "env_status 503 ''busy''"
       and d = "sample_dd IP4" and ip' = ip16_a and r = "(ip16_a, None)"]
  by (simp add: nc_empty_success_def dd_empty_success_def dd_Update_def StatusOK_def
        env_xml_def env_json_def env_status_def sample_env_def success_with_def
        sample_ParseIP_def Equal_def To4_def bytes_def ip16_a_def)

text \<open>
  C1 as it is worded fails for the Namecheap adapter at the input the claim names: with a
  nil requested IP and a response that decodes with an empty IP field and no error text,
  \<open>Update\<close> returns a nil IP and a nil error.
\<close>

theorem nc_Update_nil_IP_nil_error:
  "nc_Update (env_xml \<lparr>xml_Error = '''', xml_IP = ''''\<rparr>) sample_nc None = (None, None)
   \<and> \<not> exactly_one (nc_Update (env_xml \<lparr>xml_Error = '''', xml_IP = ''''\<rparr>) sample_nc None)"
  by (simp add: nc_Update_def StatusOK_def env_xml_def sample_env_def exactly_one_def)

section \<open>Update of the DonDominio adapter\<close>

text \<open>
  C2 does not hold of the code. On a response with status 200 that decodes with
  \<open>success\<close> true and no glue record, the index expression \<open>GlueRecords[0]\<close> panics:
  \<open>Update\<close> returns neither an IP nor an error.
\<close>

theorem dd_Update_empty_glue_records_panics:
  "NewRequestError env ''POST'' dd_url (Some (dd_values env p ip)) = None \<Longrightarrow>
   Do env (dd_request env p ip) = Inr response \<Longrightarrow>
   StatusCode response = 200 \<Longrightarrow>
   DecodeJSON env (Body response) = Inr decoded \<Longrightarrow>
   Success decoded \<Longrightarrow>
   GlueRecords decoded = [] \<Longrightarrow>
   dd_Update env p ip = Panics ''index out of range [0] with length 0''"
  by (simp add: dd_Update_def StatusOK_def)

theorem dd_Update_empty_glue_records_panics_witness:
  "Do (env_json (success_with [])) (dd_request (env_json (success_with [])) (sample_dd IP4) ip16_a)
     = Inr \<lparr>StatusCode = 200, Body = ''{}''\<rparr>
   \<and> DecodeJSON (env_json (success_with [])) ''{}'' = Inr (success_with [])
   \<and> Success (success_with []) \<and> GlueRecords (success_with []) = []
   \<and> dd_Update (env_json (success_with [])) (sample_dd IP4) ip16_a
       = Panics ''index out of range [0] with length 0''"
  using dd_Update_empty_glue_records_panics
    [of "env_json (success_with [])" "sample_dd IP4" ip16_a
        "\<lparr>StatusCode = 200, Body = ''{}''\<rparr>" "success_with []"]
  by (simp add: env_json_def sample_env_def success_with_def)

lemma dd_request_transport [simp]:
  "dd_request (env\<lparr>Do := f\<rparr>) p ip = dd_request env p ip"
  "dd_values (env\<lparr>Do := f\<rparr>) p ip = dd_values env p ip"
  "dd_request (env\<lparr>NewRequestError := g\<rparr>) p ip = dd_request env p ip"
  "dd_values (env\<lparr>NewRequestError := g\<rparr>) p ip = dd_values env p ip"
  by (simp_all add: dd_request_def dd_values_def dd_setHeaders_def Let_def)

lemma dd_Update_Do_only_at_request:
  "f (dd_request env p ip) = Do env (dd_request env p ip) \<Longrightarrow>
     dd_Update (env\<lparr>Do := f\<rparr>) p ip = dd_Update env p ip"
  by (simp add: dd_Update_def Let_def
        cong: option.case_cong sum.case_cong if_cong list.case_cong)

lemma dd_Update_NewRequest_only_at_form:
  "g ''POST'' dd_url (Some (dd_values env p ip))
     = NewRequestError env ''POST'' dd_url (Some (dd_values env p ip)) \<Longrightarrow>
     dd_Update (env\<lparr>NewRequestError := g\<rparr>) p ip = dd_Update env p ip"
  by (simp add: dd_Update_def Let_def
        cong: option.case_cong sum.case_cong if_cong list.case_cong)

lemma dd_Update_transport_error:
  "NewRequestError env ''POST'' dd_url (Some (dd_values env p ip)) = None \<Longrightarrow>
   Do env (dd_request env p ip) = Inl err \<Longrightarrow>
   dd_Update env p ip = Returns (None, Some err)"
  by (simp add: dd_Update_def)

lemma dd_Update_request_error:
  "NewRequestError env ''POST'' dd_url (Some (dd_values env p ip)) = Some err \<Longrightarrow>
   dd_Update env p ip = Returns (None, Some err)"
  by (simp add: dd_Update_def)

lemma dd_values_one_ip_field:
  "Method (dd_request env p ip) = ''POST''
   \<and> Form (dd_request env p ip) = Some (dd_values env p ip)
   \<and> dom (dd_values env p ip) =
       {''apiuser'', ''apipasswd'', ''domain'', ''name'',
        if To4 ip \<noteq> None then ''ipv4'' else ''ipv6''}
   \<and> ((dd_values env p ip ''ipv4'' \<noteq> None) \<noteq> (dd_values env p ip ''ipv6'' \<noteq> None))
   \<and> (if To4 ip \<noteq> None
       then dd_values env p ip ''ipv4'' = Some [String env ip]
            \<and> dd_values env p ip ''ipv6'' = None
       else dd_values env p ip ''ipv6'' = Some [String env ip]
            \<and> dd_values env p ip ''ipv4'' = None)"
  by (auto simp add: dd_request_def dd_setHeaders_def SetAccept_def SetContentType_def
        SetUserAgent_def dd_values_def Set_def Let_def)

text \<open>
  C7. Every call of the DonDominio \<open>Update\<close> builds one POST request whose form holds the
  four account fields and exactly one of the fields \<open>ipv4\<close> and \<open>ipv6\<close>: \<open>ipv4\<close>, with
  the text of the requested IP, when the IP is an IPv4 address (\<open>ip.To4()\<close> is not nil),
  and \<open>ipv6\<close> otherwise; the other of the two is absent. This form is what \<open>Update\<close>
  gives to \<open>http.NewRequestWithContext\<close> and this request is what it gives to
  \<open>client.Do\<close>: an error of either on them is what \<open>Update\<close> returns, and the result of
  \<open>Update\<close> does not change when the request constructor (\<open>g\<close>) or the transport
  (\<open>f\<close>) is replaced by one that agrees with it on this form and this request.
\<close>

theorem dd_request_one_ip_field:
  "Method (dd_request env p ip) = ''POST''
   \<and> Form (dd_request env p ip) = Some (dd_values env p ip)
   \<and> dom (dd_values env p ip) =
       {''apiuser'', ''apipasswd'', ''domain'', ''name'',
        if To4 ip \<noteq> None then ''ipv4'' else ''ipv6''}
   \<and> ((dd_values env p ip ''ipv4'' \<noteq> None) \<noteq> (dd_values env p ip ''ipv6'' \<noteq> None))
   \<and> (if To4 ip \<noteq> None
       then dd_values env p ip ''ipv4'' = Some [String env ip]
            \<and> dd_values env p ip ''ipv6'' = None
       else dd_values env p ip ''ipv6'' = Some [String env ip]
            \<and> dd_values env p ip ''ipv4'' = None)
   \<and> (NewRequestError env ''POST'' dd_url (Some (dd_values env p ip)) = Some err \<longrightarrow>
        dd_Update env p ip = Returns (None, Some err))
   \<and> (NewRequestError env ''POST'' dd_url (Some (dd_values env p ip)) = None \<and>
      Do env (dd_request env p ip) = Inl err \<longrightarrow>
        dd_Update env p ip = Returns (None, Some err))
   \<and> (g ''POST'' dd_url (Some (dd_values env p ip))
        = NewRequestError env ''POST'' dd_url (Some (dd_values env p ip)) \<longrightarrow>
        dd_Update (env\<lparr>NewRequestError := g\<rparr>) p ip = dd_Update env p ip)
   \<and> (f (dd_request env p ip) = Do env (dd_request env p ip) \<longrightarrow>
        dd_Update (env\<lparr>Do := f\<rparr>) p ip = dd_Update env p ip)"
proof -
  have refused:
    "NewRequestError env ''POST'' dd_url (Some (dd_values env p ip)) = Some err \<longrightarrow>
       dd_Update env p ip = Returns (None, Some err)"
    by (rule impI) (rule dd_Update_request_error)
  have failed:
    "NewRequestError env ''POST'' dd_url (Some (dd_values env p ip)) = None \<and>
     Do env (dd_request env p ip) = Inl err \<longrightarrow>
       dd_Update env p ip = Returns (None, Some err)"
    by (rule impI, elim conjE) (rule dd_Update_transport_error)
  have constructor:
    "g ''POST'' dd_url (Some (dd_values env p ip))
       = NewRequestError env ''POST'' dd_url (Some (dd_values env p ip)) \<longrightarrow>
       dd_Update (env\<lparr>NewRequestError := g\<rparr>) p ip = dd_Update env p ip"
    by (rule impI) (rule dd_Update_NewRequest_only_at_form)
  have transport:
    "f (dd_request env p ip) = Do env (dd_request env p ip) \<longrightarrow>
       dd_Update (env\<lparr>Do := f\<rparr>) p ip = dd_Update env p ip"
    by (rule impI) (rule dd_Update_Do_only_at_request)
  from dd_values_one_ip_field [of env p ip] refused failed constructor transport
  show ?thesis
    apply -
    apply (elim conjE)
    apply (intro conjI)
            apply assumption+
    done
qed

theorem dd_request_one_ip_field_witness:
  "To4 ip6_a = None
   \<and> dd_values env_probe (sample_dd IP6) ip6_a ''ipv6'' = Some [''2001:db8::1'']
   \<and> dd_values env_probe (sample_dd IP6) ip6_a ''ipv4'' = None
   \<and> Do env_probe (dd_request env_probe (sample_dd IP6) ip6_a) = Inl (Foreign ''ipv6 only'')
   \<and> dd_Update env_probe (sample_dd IP6) ip6_a = Returns (None, Some (Foreign ''ipv6 only''))
   \<and> To4 ip16_a \<noteq> None
   \<and> dd_values env_probe (sample_dd IP4) ip16_a ''ipv4'' = Some [''192.0.2.1'']
   \<and> dd_values env_probe (sample_dd IP4) ip16_a ''ipv6'' = None
   \<and> Do env_probe (dd_request env_probe (sample_dd IP4) ip16_a) = Inl (Foreign ''ipv4 only'')
   \<and> dd_Update env_probe (sample_dd IP4) ip16_a = Returns (None, Some (Foreign ''ipv4 only''))"
proof -
  have v6: "To4 ip6_a = None" and v4: "To4 ip16_a \<noteq> None"
    by (simp_all add: To4_def bytes_def ip6_a_def ip16_a_def)
  have built: "NewRequestError env_probe ''POST'' dd_url body = None" for body
    by (simp add: env_probe_def env_status_def sample_env_def)
  have text6: "String env_probe ip6_a = ''2001:db8::1''"
    and text4: "String env_probe ip16_a = ''192.0.2.1''"
    by (simp_all add: env_probe_def env_status_def sample_env_def sample_String_def Equal_def
          bytes_def ip6_a_def ip16_a_def ip16_b_def)
  note six = dd_request_one_ip_field
    [where env = env_probe and p = "sample_dd IP6" and ip = ip6_a
       and err = "Foreign ''ipv6 only''"]
  note four = dd_request_one_ip_field
    [where env = env_probe and p = "sample_dd IP4" and ip = ip16_a
       and err = "Foreign ''ipv4 only''"]
  note form6 = six [THEN conjunct2, THEN conjunct1]
    and fields6 = six [THEN conjunct2, THEN conjunct2, THEN conjunct2, THEN conjunct2,
      THEN conjunct1]
    and failed6 = six [THEN conjunct2, THEN conjunct2, THEN conjunct2, THEN conjunct2,
      THEN conjunct2, THEN conjunct2, THEN conjunct1]
  note form4 = four [THEN conjunct2, THEN conjunct1]
    and fields4 = four [THEN conjunct2, THEN conjunct2, THEN conjunct2, THEN conjunct2,
      THEN conjunct1]
    and failed4 = four [THEN conjunct2, THEN conjunct2, THEN conjunct2, THEN conjunct2,
      THEN conjunct2, THEN conjunct2, THEN conjunct1]
  from fields6 have ipv6: "dd_values env_probe (sample_dd IP6) ip6_a ''ipv6'' = Some [''2001:db8::1'']"
    and no4: "dd_values env_probe (sample_dd IP6) ip6_a ''ipv4'' = None"
    by (simp_all add: v6 text6)
  from fields4 have ipv4: "dd_values env_probe (sample_dd IP4) ip16_a ''ipv4'' = Some [''192.0.2.1'']"
    and no6: "dd_values env_probe (sample_dd IP4) ip16_a ''ipv6'' = None"
    by (simp_all add: v4 text4)
  have do6: "Do env_probe (dd_request env_probe (sample_dd IP6) ip6_a)
      = Inl (Foreign ''ipv6 only'')"
    using form6 ipv6 no4
    by (simp add: env_probe_def probe_Do_def)
  have do4: "Do env_probe (dd_request env_probe (sample_dd IP4) ip16_a)
      = Inl (Foreign ''ipv4 only'')"
    using form4 ipv4 no6
    by (simp add: env_probe_def probe_Do_def)
  from failed6 built do6
  have upd6: "dd_Update env_probe (sample_dd IP6) ip6_a
      = Returns (None, Some (Foreign ''ipv6 only''))"
    by simp
  from failed4 built do4
  have upd4: "dd_Update env_probe (sample_dd IP4) ip16_a
      = Returns (None, Some (Foreign ''ipv4 only''))"
    by simp
  from v6 ipv6 no4 do6 upd6 v4 ipv4 no6 do4 upd4 show ?thesis
    by (intro conjI)
qed

text \<open>
  C10. What the DonDominio \<open>Update\<close> sends and returns does not depend on the IP version
  stored in the provider: replacing it leaves the form, the request and the result
  unchanged. The form field is \<open>ipv4\<close> exactly when \<open>ip.To4()\<close> of the argument is not
  nil and \<open>ipv6\<close> otherwise, and on a successful response the address that is parsed and
  compared is the IPv4 field of the first glue record in the first case and its IPv6
  field in the second.
\<close>

theorem dd_Update_ignores_stored_ipVersion:
  "dd_values env (p\<lparr>dd_ipVersion := v\<rparr>) ip = dd_values env p ip
   \<and> dd_request env (p\<lparr>dd_ipVersion := v\<rparr>) ip = dd_request env p ip
   \<and> dd_Update env (p\<lparr>dd_ipVersion := v\<rparr>) ip = dd_Update env p ip
   \<and> (To4 ip \<noteq> None \<longrightarrow>
        dd_values env p ip ''ipv4'' = Some [String env ip] \<and> dd_values env p ip ''ipv6'' = None)
   \<and> (To4 ip = None \<longrightarrow>
        dd_values env p ip ''ipv6'' = Some [String env ip] \<and> dd_values env p ip ''ipv4'' = None)
   \<and> (NewRequestError env ''POST'' dd_url (Some (dd_values env p ip)) = None \<and>
      Do env (dd_request env p ip) = Inr response \<and> StatusCode response = 200 \<and>
      DecodeJSON env (Body response) = Inr decoded \<and> Success decoded \<and>
      GlueRecords decoded = first # others \<longrightarrow>
        dd_Update env p ip =
          (let ipString = (if To4 ip \<noteq> None then IPv4 first else IPv6 first);
               newIP = ParseIP env ipString
           in if newIP = None
              then Returns (None, Some (Errorf ''%w: %s''
                      [W (Sentinel ErrIPReceivedMalformed), S ipString]))
              else if \<not> Equal ip newIP
              then Returns (None, Some (Errorf ''%w: %s''
                      [W (Sentinel ErrIPReceivedMismatch), S (String env newIP)]))
              else Returns (newIP, None)))"
proof -
  have vals: "dd_values env (p\<lparr>dd_ipVersion := v\<rparr>) ip = dd_values env p ip"
    by (simp add: dd_values_def)
  have req: "dd_request env (p\<lparr>dd_ipVersion := v\<rparr>) ip = dd_request env p ip"
    by (simp add: dd_request_def vals)
  have upd: "dd_Update env (p\<lparr>dd_ipVersion := v\<rparr>) ip = dd_Update env p ip"
    unfolding dd_Update_def vals req by (rule refl)
  have fields:
    "To4 ip \<noteq> None \<longrightarrow>
       dd_values env p ip ''ipv4'' = Some [String env ip] \<and> dd_values env p ip ''ipv6'' = None"
    "To4 ip = None \<longrightarrow>
       dd_values env p ip ''ipv6'' = Some [String env ip] \<and> dd_values env p ip ''ipv4'' = None"
    by (simp_all add: dd_values_def Set_def Let_def)
  have tail:
    "NewRequestError env ''POST'' dd_url (Some (dd_values env p ip)) = None \<and>
     Do env (dd_request env p ip) = Inr response \<and> StatusCode response = 200 \<and>
     DecodeJSON env (Body response) = Inr decoded \<and> Success decoded \<and>
     GlueRecords decoded = first # others \<longrightarrow>
       dd_Update env p ip =
         (let ipString = (if To4 ip \<noteq> None then IPv4 first else IPv6 first);
              newIP = ParseIP env ipString
          in if newIP = None
             then Returns (None, Some (Errorf ''%w: %s''
                     [W (Sentinel ErrIPReceivedMalformed), S ipString]))
             else if \<not> Equal ip newIP
             then Returns (None, Some (Errorf ''%w: %s''
                     [W (Sentinel ErrIPReceivedMismatch), S (String env newIP)]))
             else Returns (newIP, None))"
  proof (intro impI, elim conjE)
    assume sent: "NewRequestError env ''POST'' dd_url (Some (dd_values env p ip)) = None"
      and answered: "Do env (dd_request env p ip) = Inr response"
      and ok: "StatusCode response = 200"
      and body: "DecodeJSON env (Body response) = Inr decoded"
      and success: "Success decoded"
      and records: "GlueRecords decoded = first # others"
    show "dd_Update env p ip =
         (let ipString = (if To4 ip \<noteq> None then IPv4 first else IPv6 first);
              newIP = ParseIP env ipString
          in if newIP = None
             then Returns (None, Some (Errorf ''%w: %s''
                     [W (Sentinel ErrIPReceivedMalformed), S ipString]))
             else if \<not> Equal ip newIP
             then Returns (None, Some (Errorf ''%w: %s''
                     [W (Sentinel ErrIPReceivedMismatch), S (String env newIP)]))
             else Returns (newIP, None))"
      unfolding dd_Update_def Let_def
      by (simp add: sent answered ok body success records StatusOK_def)
  qed
  from vals req upd fields tail show ?thesis
    by (intro conjI)
qed

theorem dd_Update_ignores_stored_ipVersion_witness:
  "dd_ipVersion (sample_dd IP6) = IP6 \<and> To4 ip16_a \<noteq> None
   \<and> dd_values (env_json (success_with [\<lparr>IPv4 = ''192.0.2.1'', IPv6 = ''2001:db8::1''\<rparr>]))
        (sample_dd IP6) ip16_a ''ipv4'' = Some [''192.0.2.1'']
   \<and> dd_values (env_json (success_with [\<lparr>IPv4 = ''192.0.2.1'', IPv6 = ''2001:db8::1''\<rparr>]))
        (sample_dd IP6) ip16_a ''ipv6'' = None
   \<and> dd_Update (env_json (success_with [\<lparr>IPv4 = ''192.0.2.1'', IPv6 = ''2001:db8::1''\<rparr>]))
        (sample_dd IP6) ip16_a = Returns (ip16_a, None)
   \<and> dd_ipVersion (sample_dd IP4) = IP4 \<and> To4 ip6_a = None
   \<and> dd_values (env_json (success_with [\<lparr>IPv4 = ''192.0.2.1'', IPv6 = ''2001:db8::1''\<rparr>]))
        (sample_dd IP4) ip6_a ''ipv6'' = Some [''2001:db8::1'']
   \<and> dd_values (env_json (success_with [\<lparr>IPv4 = ''192.0.2.1'', IPv6 = ''2001:db8::1''\<rparr>]))
        (sample_dd IP4) ip6_a ''ipv4'' = None
   \<and> dd_Update (env_json (success_with [\<lparr>IPv4 = ''192.0.2.1'', IPv6 = ''2001:db8::1''\<rparr>]))
        (sample_dd IP4) ip6_a = Returns (ip6_a, None)"
  using dd_Update_ignores_stored_ipVersion
    [where env = "env_json (success_with [\<lparr>IPv4 = ''192.0.2.1'', IPv6 = ''2001:db8::1''\<rparr>])"
       and p = "sample_dd IP6" and ip = ip16_a and v = IP6
       and response = "\<lparr>StatusCode = 200, Body = ''{}''\<rparr>"
       and decoded = "success_with [\<lparr>IPv4 = ''192.0.2.1'', IPv6 = ''2001:db8::1''\<rparr>]"
       and first = "\<lparr>IPv4 = ''192.0.2.1'', IPv6 = ''2001:db8::1''\<rparr>" and others = "[]"]
    dd_Update_ignores_stored_ipVersion
    [where env = "env_json (success_with [\<lparr>IPv4 = ''192.0.2.1'', IPv6 = ''2001:db8::1''\<rparr>])"
       and p = "sample_dd IP4" and ip = ip6_a and v = IP4
       and response = "\<lparr>StatusCode = 200, Body = ''{}''\<rparr>"
       and decoded = "success_with [\<lparr>IPv4 = ''192.0.2.1'', IPv6 = ''2001:db8::1''\<rparr>]"
       and first = "\<lparr>IPv4 = ''192.0.2.1'', IPv6 = ''2001:db8::1''\<rparr>" and others = "[]"]
  by (simp add: To4_def bytes_def ip6_a_def ip16_a_def ip16_b_def env_json_def sample_env_def
        sample_String_def sample_ParseIP_def Equal_def sample_dd_def success_with_def)

section \<open>The run loop of the liveness server\<close>

lemma completion_inv_init: "completion_inv (Run_init c)"
  by (simp add: completion_inv_def Run_init_def)

lemma completion_inv_exec:
  "completion_inv s \<Longrightarrow> exec address s ev = Some s' \<Longrightarrow> completion_inv s'"
  by (cases ev)
     (auto simp add: completion_inv_def split: if_splits loop_pc.splits watcher_pc.splits
        option.splits)

lemma completion_inv_run:
  "completion_inv s \<Longrightarrow> run address s evs = Some s' \<Longrightarrow> completion_inv s'"
proof (induction evs arbitrary: s)
  case Nil
  then show ?case by simp
next
  case (Cons ev evs)
  from Cons.prems(2) obtain t where step: "exec address s ev = Some t"
    and rest: "run address t evs = Some s'"
    by (auto split: option.splits)
  from Cons.prems(1) step have "completion_inv t"
    by (rule completion_inv_exec)
  then show ?case
    using rest by (rule Cons.IH)
qed

lemma close_only_on_exit:
  "exec address s ev = Some s' \<Longrightarrow> closes s' \<noteq> closes s \<Longrightarrow>
     ev = Loop \<and> loop s = LoopHead \<and> canceled s \<and> loop s' = Stopped
     \<and> closes s' = Suc (closes s)"
  by (cases ev)
     (auto split: if_splits loop_pc.splits watcher_pc.splits option.splits)

lemma exit_after_cancel:
  "loop s = ListenerExited err \<Longrightarrow> canceled s \<Longrightarrow>
     run address s [Loop, Loop] = Some (s\<lparr>loop := Stopped, closes := Suc (closes s)\<rparr>)"
  by (cases err) simp_all

lemma crash_restart:
  "loop s = ListenerExited (Some msg) \<Longrightarrow> \<not> canceled s \<Longrightarrow>
     run address s [Loop, Loop] =
       Some (s\<lparr>loop := Serving, listens := Suc (listens s),
               log := log s @ [(Error, msg), (Info, ''restarting''),
                               (Info, ''listening on '' @ address)]\<rparr>)"
  by simp

text \<open>
  C9. When the listener has returned an error and the context is not canceled, the next
  two steps of the loop log the crash and call \<open>ListenAndServe\<close> again, and
  \<open>close(done)\<close> does not run. In every state a run of \<open>Run\<close> reaches, \<open>close(done)\<close>
  has run at most once, it has run exactly when \<open>Run\<close> has returned, and \<open>Run\<close> has
  returned only under a canceled context. The only step that runs \<open>close(done)\<close> is the
  exit of the loop, taken at the loop condition under a canceled context; and when the
  listener has returned under a canceled context, the next two steps of the loop leave it
  and run \<open>close(done)\<close>.
\<close>

theorem Run_closes_done_once:
  "(loop s = ListenerExited (Some msg) \<and> \<not> canceled s \<longrightarrow>
      run address s [Loop, Loop] =
        Some (s\<lparr>loop := Serving, listens := Suc (listens s),
                log := log s @ [(Error, msg), (Info, ''restarting''),
                                (Info, ''listening on '' @ address)]\<rparr>))
   \<and> (run address (Run_init c) evs = Some t \<longrightarrow>
        closes t \<le> 1 \<and> (closes t = 1 \<longleftrightarrow> loop t = Stopped)
        \<and> (loop t = Stopped \<longrightarrow> canceled t))
   \<and> (exec address s ev = Some s' \<and> closes s' \<noteq> closes s \<longrightarrow>
        ev = Loop \<and> loop s = LoopHead \<and> canceled s \<and> loop s' = Stopped
        \<and> closes s' = Suc (closes s))
   \<and> (loop s = ListenerExited err \<and> canceled s \<longrightarrow>
        run address s [Loop, Loop] = Some (s\<lparr>loop := Stopped, closes := Suc (closes s)\<rparr>))"
proof (intro conjI impI)
  assume "loop s = ListenerExited (Some msg) \<and> \<not> canceled s"
  then show "run address s [Loop, Loop] =
        Some (s\<lparr>loop := Serving, listens := Suc (listens s),
                log := log s @ [(Error, msg), (Info, ''restarting''),
                                (Info, ''listening on '' @ address)]\<rparr>)"
    using crash_restart by blast
next
  assume reached: "run address (Run_init c) evs = Some t"
  have inv: "completion_inv t"
    using completion_inv_init reached by (rule completion_inv_run)
  then show "closes t \<le> 1" "closes t = 1 \<longleftrightarrow> loop t = Stopped"
    by (simp_all add: completion_inv_def)
  assume "loop t = Stopped"
  with inv show "canceled t" by (simp add: completion_inv_def)
next
  assume "exec address s ev = Some s' \<and> closes s' \<noteq> closes s"
  then have exit: "ev = Loop \<and> loop s = LoopHead \<and> canceled s \<and> loop s' = Stopped
        \<and> closes s' = Suc (closes s)"
    using close_only_on_exit by blast
  from exit show "ev = Loop" "loop s = LoopHead" "canceled s" "loop s' = Stopped"
    "closes s' = Suc (closes s)" by simp_all
next
  assume "loop s = ListenerExited err \<and> canceled s"
  then show "run address s [Loop, Loop] = Some (s\<lparr>loop := Stopped, closes := Suc (closes s)\<rparr>)"
    using exit_after_cancel by blast
qed

theorem Run_closes_done_once_witness:
  "run '':9999'' (Run_init False) [Loop, ListenerExit (Some crash_message)] = Some crashed
   \<and> loop crashed = ListenerExited (Some crash_message) \<and> \<not> canceled crashed
   \<and> run '':9999'' crashed [Loop, Loop] =
       Some (crashed\<lparr>loop := Serving, listens := 2,
               log := [(Info, ''listening on :9999''), (Error, crash_message),
                       (Info, ''restarting''), (Info, ''listening on :9999'')]\<rparr>)
   \<and> run '':9999'' (Run_init False) crash_then_cancel =
       Some \<lparr>canceled = True, loop = Stopped, watcher = ShutDown, closes = 1, listens = 2,
             log = [(Info, ''listening on :9999''), (Error, crash_message),
                    (Info, ''restarting''), (Info, ''listening on :9999''),
                    (Warn, ''shutting down (context canceled)''), (Warn, ''shut down'')]\<rparr>
   \<and> exec '':9999'' (crashed\<lparr>canceled := True, loop := LoopHead\<rparr>) Loop =
       Some (crashed\<lparr>canceled := True, loop := Stopped, closes := 1\<rparr>)"
  using Run_closes_done_once
    [where s = crashed and msg = crash_message and address = "'':9999''" and c = False
       and evs = crash_then_cancel
       and t = "\<lparr>canceled = True, loop = Stopped, watcher = ShutDown, closes = 1,
                 listens = 2,
                 log = [(Info, ''listening on :9999''), (Error, crash_message),
                    (Info, ''restarting''), (Info, ''listening on :9999''),
                    (Warn, ''shutting down (context canceled)''), (Warn, ''shut down'')]\<rparr>"
       and ev = Loop and s' = "crashed\<lparr>canceled := True, loop := Stopped, closes := 1\<rparr>"]
    Run_closes_done_once
    [where s = "crashed\<lparr>canceled := True, loop := LoopHead\<rparr>" and msg = crash_message
       and address = "'':9999''" and c = False and evs = "[]" and t = "Run_init False"
       and ev = Loop and s' = "crashed\<lparr>canceled := True, loop := Stopped, closes := 1\<rparr>"]
  by (simp add: crashed_def crash_then_cancel_def Run_init_def)

end
